theory Spec2Isabelle
  imports Complex_Main "HOL-Library.Sublist"
begin

section \<open>Data model\<close>

text \<open>
  The program \<^verbatim>\<open>cifti_roi.py\<close> finds clusters in a CIFTI statistical map and reports
  the atlas regions they overlap. The arrays it handles are modelled as lists: the
  cluster data is an array of numbers, one per surface vertex, of which the code only
  asks whether it equals \<open>0\<close>; the atlas data is an array of integer label ids; the
  atlas dictionary maps label ids to region names.

  \<^verbatim>\<open>load_hemi_data\<close> returns the cluster data as a column, one row per vertex and one
  number per row for a file that holds one map; \<^verbatim>\<open>cluster_data[idx] == 0\<close> then
  compares that number. The model is of such one-map data, the element of the list
  being the number in the row.
\<close>

type_synonym cluster_data = "real list"
type_synonym atlas_data = "int list"
type_synonym atlas_dict = "int \<rightharpoonup> string"

text \<open>
  The exceptions the modelled code can raise: a dictionary lookup of a missing key, and
  a write into an array past its end.
\<close>

datatype error = KeyError int | IndexError nat

section \<open>The overlap resolver: \<^verbatim>\<open>get_roi_name\<close>\<close>

text \<open>
  The first loop of \<^verbatim>\<open>get_roi_name\<close>,
  \<^verbatim>\<open>for idx,val in enumerate(cluster_data): if cluster_data[idx] == 0: atlas_data[idx] = 0\<close>,
  writes into the array object the caller passed. The model threads that array through
  the loop and returns its final contents, together with the exception if the write at
  \<open>idx\<close> falls outside the array (numpy raises \<^verbatim>\<open>IndexError\<close>; the writes made
  before that stay).
\<close>

fun mask_loop :: "cluster_data \<Rightarrow> nat \<Rightarrow> atlas_data \<Rightarrow> atlas_data \<times> error option" where
  "mask_loop [] idx atlas = (atlas, None)"
| "mask_loop (val # rest) idx atlas =
     (if val = 0 then
        (if idx < length atlas then mask_loop rest (Suc idx) (atlas[idx := 0])
         else (atlas, Some (IndexError idx)))
      else mask_loop rest (Suc idx) atlas)"

text \<open>
  \<^verbatim>\<open>np.unique\<close> returns the distinct values of an array in ascending order.
\<close>

definition unique :: "int list \<Rightarrow> int list" where
  "unique xs = sort (remdups xs)"

text \<open>
  The second loop, \<^verbatim>\<open>for i in ...: tmp_list = atlas_dict[i]; roi_list.append(tmp_list)\<close>.
  A missing key raises \<^verbatim>\<open>KeyError\<close>.
\<close>

fun lookup_loop :: "atlas_dict \<Rightarrow> int list \<Rightarrow> string list \<Rightarrow> error + string list" where
  "lookup_loop d [] roi_list = Inr roi_list"
| "lookup_loop d (i # ids) roi_list =
     (case d i of
        None \<Rightarrow> Inl (KeyError i)
      | Some name \<Rightarrow> lookup_loop d ids (roi_list @ [name]))"

text \<open>
  The whole function. The first component of the result is the contents of the caller's
  \<^verbatim>\<open>atlas_data\<close> array once the call is over, the second is what the call returns or
  raises. The slice \<^verbatim>\<open>[1:]\<close> drops the first element of the sorted distinct values
  and is empty on an array of fewer than two elements, as \<open>tl\<close> is.
\<close>

definition get_roi_name :: "cluster_data \<Rightarrow> atlas_data \<Rightarrow> atlas_dict \<Rightarrow> atlas_data \<times> (error + string list)" where
  "get_roi_name cluster_data atlas_data atlas_dict =
     (case mask_loop cluster_data 0 atlas_data of
        (atlas', Some e) \<Rightarrow> (atlas', Inl e)
      | (atlas', None) \<Rightarrow> (atlas', lookup_loop atlas_dict (tl (unique atlas')) []))"


section \<open>The environment\<close>

text \<open>
  Everything the program obtains from outside itself is gathered in one record: what the
  external tools (\<^verbatim>\<open>wb_command\<close> read back through \<^verbatim>\<open>nibabel\<close>, and the
  third-party module \<^verbatim>\<open>nifti_roi\<close>) deliver, and what the Python library reports about
  the platform. The fields are parameters of the model; nothing is assumed of them.
  \<^item> \<open>wb_labels file wb_struct\<close>: the label array and label dictionary that
    \<^verbatim>\<open>load_hemi_labels\<close> reads for one hemisphere of a dlabel file;
  \<^item> \<open>wb_metric file wb_struct\<close>: the data array that \<^verbatim>\<open>load_hemi_data\<close> reads for
    one hemisphere of a file;
  \<^item> \<open>nro_atlas_rois file thresh dist nii_atlas atlas_info\<close>: the list that
    \<^verbatim>\<open>nro.get_roi_name\<close> returns on the volume separated from \<open>file\<close>, with the
    stand-alone atlas loaded by \<^verbatim>\<open>nro.load_atlas_data\<close> and the clusters found by
    \<^verbatim>\<open>nro.load_nii_vol\<close>;
  \<^item> \<open>nro_vol_clust file thresh dist vol_atlas_num\<close>: the list that
    \<^verbatim>\<open>nro.vol_clust\<close> returns on that volume;
  \<^item> \<open>nro_print_atlases\<close>: the lines \<^verbatim>\<open>nro.print_atlases()\<close> prints;
  \<^item> \<open>platform_system\<close>: the value of \<^verbatim>\<open>platform.system()\<close>;
  \<^item> \<open>os_sep\<close>, \<open>os_altsep\<close>: the path separators of \<^verbatim>\<open>os.path\<close>
    (\<^verbatim>\<open>/\<close> and none on POSIX, backslash and \<^verbatim>\<open>/\<close> on Windows);
  \<^item> \<open>os_path_abspath\<close>: \<^verbatim>\<open>os.path.abspath\<close> in the current directory.
  The temporary files the tools write and the program removes again
  (\<^verbatim>\<open>clusters.dscalar.nii\<close>, \<^verbatim>\<open>data.label.gii\<close>, \<^verbatim>\<open>data.func.gii\<close>,
  \<^verbatim>\<open>data.nii.gz\<close>) are not part of the model, and the external calls do not fail in it.
\<close>

record world =
  wb_labels :: "string \<Rightarrow> string \<Rightarrow> atlas_data \<times> atlas_dict"
  wb_metric :: "string \<Rightarrow> string \<Rightarrow> cluster_data"
  nro_atlas_rois :: "string \<Rightarrow> real \<Rightarrow> real \<Rightarrow> string \<Rightarrow> string \<Rightarrow> string list"
  nro_vol_clust :: "string \<Rightarrow> real \<Rightarrow> real \<Rightarrow> int \<Rightarrow> string list"
  nro_print_atlases :: "string list"
  platform_system :: string
  os_sep :: char
  os_altsep :: "char option"
  os_path_abspath :: "string \<Rightarrow> string"

text \<open>
  The output tables on disk: a path either names no file or a table, which is a list of
  rows. A field of a row is a text, or the list of names that pandas writes as the
  literal representation of the list.
\<close>

datatype cell = Text string | Names "string list"
type_synonym row = "cell list"
type_synonym files = "string \<rightharpoonup> row list"

section \<open>Library functions the program calls\<close>

text \<open>
  \<^verbatim>\<open>str.rfind\<close> for a one-character argument: the highest index at which the
  character occurs, or \<open>-1\<close>.
\<close>

definition rfind :: "string \<Rightarrow> char \<Rightarrow> int" where
  "rfind p c =
     (case filter (\<lambda>i. p ! i = c) (rev [0..<length p]) of
        [] \<Rightarrow> - 1
      | i # _ \<Rightarrow> int i)"

text \<open>
  \<^verbatim>\<open>os.path.splitext\<close>, as \<^verbatim>\<open>genericpath._splitext\<close> defines it: the extension starts
  at the last dot of the last path component, unless only dots precede it there.
  \<open>skip_dots\<close> is its loop \<^verbatim>\<open>while filenameIndex < dotIndex\<close>.
\<close>

function skip_dots :: "string \<Rightarrow> nat \<Rightarrow> nat \<Rightarrow> string \<times> string" where
  "skip_dots p filenameIndex dotIndex =
     (if filenameIndex < dotIndex then
        (if p ! filenameIndex \<noteq> CHR ''.'' then (take dotIndex p, drop dotIndex p)
         else skip_dots p (Suc filenameIndex) dotIndex)
      else (p, []))"
  by pat_completeness auto
termination
  by (relation "measure (\<lambda>(p, filenameIndex, dotIndex). dotIndex - filenameIndex)") auto

declare skip_dots.simps [simp del]

definition splitext :: "world \<Rightarrow> string \<Rightarrow> string \<times> string" where
  "splitext w p =
     (let sepIndex = (case os_altsep w of
                        None \<Rightarrow> rfind p (os_sep w)
                      | Some altsep \<Rightarrow> max (rfind p (os_sep w)) (rfind p altsep));
          dotIndex = rfind p CHR ''.''
      in if dotIndex > sepIndex then skip_dots p (nat (sepIndex + 1)) (nat dotIndex)
         else (p, []))"

text \<open>\<^verbatim>\<open>str.lower\<close> on ASCII text.\<close>

definition lower :: "string \<Rightarrow> string" where
  "lower s =
     map (\<lambda>c. case map_of (zip ''ABCDEFGHIJKLMNOPQRSTUVWXYZ'' ''abcdefghijklmnopqrstuvwxyz'') c of
                 Some l \<Rightarrow> l
               | None \<Rightarrow> c) s"

section \<open>Loading the per-hemisphere data\<close>

definition load_hemi_labels :: "world \<Rightarrow> string \<Rightarrow> string \<Rightarrow> atlas_data \<times> atlas_dict" where
  "load_hemi_labels w file wb_struct = wb_labels w file wb_struct"

definition load_hemi_data :: "world \<Rightarrow> string \<Rightarrow> string \<Rightarrow> cluster_data" where
  "load_hemi_data w file wb_struct = wb_metric w file wb_struct"

text \<open>
  \<^verbatim>\<open>find_clusters\<close> runs the cluster extraction and returns the name of the file it
  wrote.
\<close>

definition find_clusters :: "string \<Rightarrow> string \<Rightarrow> string \<Rightarrow> real \<Rightarrow> real \<Rightarrow> string" where
  "find_clusters file left_surf right_surf thresh distance = ''clusters.dscalar.nii''"

text \<open>
  \<^verbatim>\<open>proc_hemi\<close> loads the labels and the cluster data of one hemisphere and resolves
  them. The label array is its own local object, so the contents \<^verbatim>\<open>get_roi_name\<close>
  leaves in it are dropped here.
\<close>

definition proc_hemi :: "world \<Rightarrow> string \<Rightarrow> string \<Rightarrow> string \<Rightarrow> error + string list" where
  "proc_hemi w gii_data gii_atlas wb_struct =
     (case load_hemi_labels w gii_atlas wb_struct of
        (atlas_data, atlas_dict) \<Rightarrow>
          (let cluster_data = load_hemi_data w gii_data wb_struct
           in snd (get_roi_name cluster_data atlas_data atlas_dict)))"

text \<open>
  \<^verbatim>\<open>load_vol_data\<close>: \<^verbatim>\<open>if nii_atlas and atlas_info\<close> tests that both strings are
  non-empty.
\<close>

definition load_vol_data :: "world \<Rightarrow> string \<Rightarrow> real \<Rightarrow> real \<Rightarrow> int \<Rightarrow> string \<Rightarrow> string \<Rightarrow> string list" where
  "load_vol_data w file thresh dist' vol_atlas_num nii_atlas atlas_info =
     (if nii_atlas \<noteq> [] \<and> atlas_info \<noteq> [] then nro_atlas_rois w file thresh dist' nii_atlas atlas_info
      else nro_vol_clust w file thresh dist' vol_atlas_num)"

section \<open>The record writer: \<^verbatim>\<open>write_spread\<close>\<close>

text \<open>
  The first statement of \<^verbatim>\<open>write_spread\<close> rewrites the output file name;
  \<^verbatim>\<open>'.csv' in out_file\<close> is Python's substring test.
\<close>

definition write_spread_out_file :: "world \<Rightarrow> string \<Rightarrow> string" where
  "write_spread_out_file w out_file =
     (if sublist ''.csv'' out_file then fst (splitext w out_file) @ ''.csv''
      else if sublist ''.tsv'' out_file then fst (splitext w out_file) @ ''.csv''
      else if sublist ''.txt'' out_file then fst (splitext w out_file) @ ''.csv''
      else out_file)"

text \<open>
  The data frame built from \<^verbatim>\<open>{"File": file, "ROIs": [roi_list]}\<close> has the columns
  \<^verbatim>\<open>File\<close> and \<^verbatim>\<open>ROIs\<close> and one row. \<^verbatim>\<open>to_csv\<close> appends its rows to an existing
  file without a header (\<^verbatim>\<open>mode='a'\<close>), or writes a new file with the header row first
  (\<^verbatim>\<open>mode='w'\<close>).
\<close>

definition header_row :: row where
  "header_row = [Text ''File'', Text ''ROIs'']"

definition write_spread :: "world \<Rightarrow> string \<Rightarrow> string \<Rightarrow> string list \<Rightarrow> files \<Rightarrow> string \<times> files" where
  "write_spread w file out_file roi_list fs =
     (let out_file = write_spread_out_file w out_file;
          file = os_path_abspath w file;
          df = [[Text file, Names roi_list]]
      in case fs out_file of
           Some rows \<Rightarrow> (out_file, fs(out_file \<mapsto> rows @ df))
         | None \<Rightarrow> (out_file, fs(out_file \<mapsto> header_row # df)))"

section \<open>The modality orchestrator: \<^verbatim>\<open>proc_stat_cluster\<close>\<close>

text \<open>
  The loop \<^verbatim>\<open>for wb_struct in wb_structs\<close> with its two variables: the accumulated
  \<^verbatim>\<open>roi_list\<close> and \<^verbatim>\<open>tmp_list\<close>, which keeps the result of the last hemisphere
  processed when the loop is over.
\<close>

fun hemi_loop :: "world \<Rightarrow> string \<Rightarrow> string \<Rightarrow> string list \<Rightarrow> string list \<times> string list
                    \<Rightarrow> error + string list \<times> string list" where
  "hemi_loop w cii_data cii_atlas [] (roi_list, tmp_list) = Inr (roi_list, tmp_list)"
| "hemi_loop w cii_data cii_atlas (wb_struct # wb_structs) (roi_list, tmp_list) =
     (case proc_hemi w cii_data cii_atlas wb_struct of
        Inl e \<Rightarrow> Inl e
      | Inr tmp_list' \<Rightarrow>
          hemi_loop w cii_data cii_atlas wb_structs
            (if length tmp_list' = 0 then roi_list else roi_list @ tmp_list', tmp_list'))"

text \<open>
  The part of \<^verbatim>\<open>proc_stat_cluster\<close> up to the write: the list \<^verbatim>\<open>roi_list\<close> it has
  built when it reaches \<^verbatim>\<open>if len(roi_list) != 0\<close>.
\<close>

definition proc_stat_cluster_rois ::
  "world \<Rightarrow> string \<Rightarrow> string \<Rightarrow> string \<Rightarrow> string \<Rightarrow> real \<Rightarrow> real \<Rightarrow> int \<Rightarrow> string \<Rightarrow> string
     \<Rightarrow> error + string list" where
  "proc_stat_cluster_rois w cii_file cii_atlas left_surf right_surf thresh distance vol_atlas_num nii_atlas atlas_info =
     (let cii_data = find_clusters cii_file left_surf right_surf thresh distance
      in case hemi_loop w cii_data cii_atlas [''CORTEX_LEFT'', ''CORTEX_RIGHT''] ([], []) of
           Inl e \<Rightarrow> Inl e
         | Inr (roi_list, tmp_list) \<Rightarrow>
             (let tmp_list =
                    (if lower (platform_system w) \<noteq> ''windows''
                     then load_vol_data w cii_file thresh distance vol_atlas_num nii_atlas atlas_info
                     else tmp_list)
              in Inr (if length tmp_list = 0 then roi_list else roi_list @ tmp_list)))"

text \<open>
  The whole function: it returns the output file name and leaves the tables on disk as
  given in the second component.
\<close>

definition proc_stat_cluster ::
  "world \<Rightarrow> string \<Rightarrow> string \<Rightarrow> string \<Rightarrow> string \<Rightarrow> string \<Rightarrow> real \<Rightarrow> real \<Rightarrow> int \<Rightarrow> string \<Rightarrow> string
     \<Rightarrow> files \<Rightarrow> error + string \<times> files" where
  "proc_stat_cluster w cii_file cii_atlas out_file left_surf right_surf thresh distance vol_atlas_num nii_atlas atlas_info fs =
     (case proc_stat_cluster_rois w cii_file cii_atlas left_surf right_surf thresh distance
             vol_atlas_num nii_atlas atlas_info of
        Inl e \<Rightarrow> Inl e
      | Inr roi_list \<Rightarrow>
          (if length roi_list \<noteq> 0 then Inr (write_spread w cii_file out_file roi_list fs)
           else Inr (out_file, fs)))"

section \<open>The command line\<close>

text \<open>
  The parsed arguments: an option that was not given is \<open>None\<close>. \<^verbatim>\<open>--thresh\<close> and
  \<^verbatim>\<open>--distance\<close> have defaults, \<^verbatim>\<open>--dump-vol-atlases\<close> is a flag.
\<close>

record args =
  args_cii_file :: "string option"
  args_out_file :: "string option"
  args_left_gii :: "string option"
  args_right_gii :: "string option"
  args_cii_atlas :: "string option"
  args_vol_atlas_num :: "int option"
  args_vol_atlas :: "string option"
  args_vol_info :: "string option"
  args_thresh :: real
  args_dist :: real
  args_dump_vol_atlases :: bool

text \<open>
  Python's truth value of an argument: \<^verbatim>\<open>None\<close>, the empty string and the number
  \<open>0\<close> are false.
\<close>

definition truthy_str :: "string option \<Rightarrow> bool" where
  "truthy_str a = (case a of None \<Rightarrow> False | Some s \<Rightarrow> s \<noteq> [])"

definition truthy_int :: "int option \<Rightarrow> bool" where
  "truthy_int a = (case a of None \<Rightarrow> False | Some n \<Rightarrow> n \<noteq> 0)"

text \<open>
  What one run of the program leaves behind: its exit status, the lines it printed, the
  exception that ended it if one did, and the tables on disk.
\<close>

record outcome =
  exit_status :: nat
  printed :: "string list"
  raised :: "error option"
  tables :: files

text \<open>
  A call of \<^verbatim>\<open>proc_stat_cluster\<close> from the main block: an exception it raises is not
  caught, so the interpreter ends with status \<open>1\<close>; otherwise the program runs to its
  end with status \<open>0\<close>.
\<close>

definition run_proc :: "files \<Rightarrow> error + string \<times> files \<Rightarrow> outcome" where
  "run_proc fs r =
     (case r of
        Inl e \<Rightarrow> \<lparr>exit_status = 1, printed = [], raised = Some e, tables = fs\<rparr>
      | Inr (out_file, fs') \<Rightarrow> \<lparr>exit_status = 0, printed = [], raised = None, tables = fs'\<rparr>)"

text \<open>The block under \<^verbatim>\<open>if __name__ == "__main__"\<close>, after the arguments are parsed.\<close>

definition main :: "world \<Rightarrow> args \<Rightarrow> files \<Rightarrow> outcome" where
  "main w a fs =
     (if args_dump_vol_atlases a then
        \<lparr>exit_status = 0, printed = nro_print_atlases w, raised = None, tables = fs\<rparr>
      else if truthy_str (args_cii_file a) \<and> truthy_str (args_out_file a) \<and> truthy_str (args_left_gii a)
              \<and> truthy_str (args_right_gii a) \<and> truthy_str (args_cii_atlas a) then
        (if truthy_str (args_vol_atlas a) \<and> truthy_str (args_vol_info a) then
           run_proc fs
             (proc_stat_cluster w (the (args_cii_file a)) (the (args_cii_atlas a)) (the (args_out_file a))
                (the (args_left_gii a)) (the (args_right_gii a)) (args_thresh a) (args_dist a)
                4 (the (args_vol_atlas a)) (the (args_vol_info a)) fs)
         else if truthy_int (args_vol_atlas_num a) then
           run_proc fs
             (proc_stat_cluster w (the (args_cii_file a)) (the (args_cii_atlas a)) (the (args_out_file a))
                (the (args_left_gii a)) (the (args_right_gii a)) (args_thresh a) (args_dist a)
                (the (args_vol_atlas_num a)) [] [] fs)
         else \<lparr>exit_status = 0, printed = [], raised = None, tables = fs\<rparr>)
      else
        \<lparr>exit_status = 1,
         printed = [[], ''Not all valid options were specified. Please see help menu for details.'', []],
         raised = None, tables = fs\<rparr>)"


section \<open>Vocabulary of the specification\<close>

text \<open>
  The specification speaks of the label ids that survive masking: the values of the
  labels at the indices where the cluster data is nonzero and the label is nonzero.
  This definition follows those words, not the code.
\<close>

definition surviving_ids :: "cluster_data \<Rightarrow> atlas_data \<Rightarrow> int list" where
  "surviving_ids cluster_data atlas_data =
     map snd (filter (\<lambda>(m, l). m \<noteq> 0 \<and> l \<noteq> 0) (zip cluster_data atlas_data))"

section \<open>A concrete environment\<close>

text \<open>
  A small environment on which the functions can be evaluated: a POSIX system whose
  atlas has four vertices per hemisphere. In the left hemisphere the cluster covers the
  region \<open>Frontal\<close> (id 3); in the right hemisphere it covers \<open>Insula\<close> (id 5)
  and \<open>Temporal\<close> (id 2). The volumetric lookup by atlas number reports
  \<open>Frontal\<close>, the one with a stand-alone atlas reports nothing.
\<close>

definition posix_world :: world where
  "posix_world =
     \<lparr>wb_labels = (\<lambda>file wb_struct.
          if wb_struct = ''CORTEX_LEFT'' then ([0, 3, 3, 7], [3 \<mapsto> ''Frontal'', 7 \<mapsto> ''Parietal''])
          else ([5, 0, 2, 7], [2 \<mapsto> ''Temporal'', 5 \<mapsto> ''Insula'', 7 \<mapsto> ''Parietal''])),
      wb_metric = (\<lambda>file wb_struct.
          if wb_struct = ''CORTEX_LEFT'' then [0, 1, 1, 0] else [2, 0, 2, 0]),
      nro_atlas_rois = (\<lambda>file thresh dist' nii_atlas atlas_info. []),
      nro_vol_clust = (\<lambda>file thresh dist' vol_atlas_num. [''Frontal'']),
      nro_print_atlases = [''1 | Harvard-Oxford Cortical Structural Atlas''],
      platform_system = ''Linux'',
      os_sep = CHR ''/'',
      os_altsep = None,
      os_path_abspath = (\<lambda>p. ''/data/'' @ p)\<rparr>"


text \<open>
  The same data on a Windows system, where \<^verbatim>\<open>platform.system()\<close> is
  \<^verbatim>\<open>Windows\<close> and paths are separated by a backslash or a slash.
\<close>

definition windows_world :: world where
  "windows_world =
     posix_world\<lparr>platform_system := ''Windows'', os_sep := CHR 0x5C, os_altsep := Some CHR ''/''\<rparr>"

text \<open>
  An environment in which no vertex is inside a cluster and the volumetric lookup finds
  nothing.
\<close>

definition quiet_world :: world where
  "quiet_world =
     posix_world\<lparr>wb_metric := (\<lambda>file wb_struct. [0, 0, 0, 0]),
                  nro_vol_clust := (\<lambda>file thresh dist' vol_atlas_num. [])\<rparr>"

text \<open>
  Command lines: one that gives the five required arguments and no volumetric option,
  and the same with \<^verbatim>\<open>--dump-vol-atlases\<close>.
\<close>

definition cortical_only_args :: args where
  "cortical_only_args =
     \<lparr>args_cii_file = Some ''stats.dscalar.nii'',
      args_out_file = Some ''rois.csv'',
      args_left_gii = Some ''L.midthickness.surf.gii'',
      args_right_gii = Some ''R.midthickness.surf.gii'',
      args_cii_atlas = Some ''atlas.dlabel.nii'',
      args_vol_atlas_num = None,
      args_vol_atlas = None,
      args_vol_info = None,
      args_thresh = 177 / 100,
      args_dist = 20,
      args_dump_vol_atlases = False\<rparr>"

section \<open>Properties of the masking loop\<close>

text \<open>
  The masking loop never changes the length of the label array; it puts \<open>0\<close> at the
  indices it visits where the cluster data is \<open>0\<close> and leaves the other elements.
\<close>

lemma mask_loop_length: "length (fst (mask_loop cs idx atlas)) = length atlas"
  by (induction cs arbitrary: idx atlas) simp_all

lemma mask_loop_nth:
  "i < length atlas \<Longrightarrow>
   fst (mask_loop cs idx atlas) ! i =
     (if idx \<le> i \<and> i < idx + length cs \<and> cs ! (i - idx) = 0 then 0 else atlas ! i)"
proof (induction cs arbitrary: idx atlas)
  case Nil
  then show ?case by simp
next
  case (Cons val rest)
  show ?case
  proof (cases "val = 0 \<and> idx < length atlas")
    case True
    then have "fst (mask_loop (val # rest) idx atlas) ! i = fst (mask_loop rest (Suc idx) (atlas[idx := 0])) ! i"
      by simp
    also have "\<dots> = (if Suc idx \<le> i \<and> i < Suc idx + length rest \<and> rest ! (i - Suc idx) = 0 then 0
                      else (atlas[idx := 0]) ! i)"
      using Cons.prems by (intro Cons.IH) simp
    also have "\<dots> = (if idx \<le> i \<and> i < idx + length (val # rest) \<and> (val # rest) ! (i - idx) = 0 then 0 else atlas ! i)"
      using True Cons.prems by (cases "i = idx") (auto simp: nth_Cons' Suc_diff_Suc)
    finally show ?thesis .
  next
    case False
    show ?thesis
    proof (cases "val = 0")
      case True
      with False have "\<not> idx < length atlas" by simp
      with True Cons.prems show ?thesis by simp
    next
      case nz: False
      then have "fst (mask_loop (val # rest) idx atlas) ! i = fst (mask_loop rest (Suc idx) atlas) ! i"
        by simp
      also have "\<dots> = (if Suc idx \<le> i \<and> i < Suc idx + length rest \<and> rest ! (i - Suc idx) = 0 then 0
                      else atlas ! i)"
        using Cons.prems by (intro Cons.IH)
      also have "\<dots> = (if idx \<le> i \<and> i < idx + length (val # rest) \<and> (val # rest) ! (i - idx) = 0 then 0 else atlas ! i)"
        using nz by (cases "i = idx") (auto simp: nth_Cons' Suc_diff_Suc)
      finally show ?thesis .
    qed
  qed
qed

lemma mask_loop_no_error:
  "idx + length cs \<le> length atlas \<Longrightarrow> snd (mask_loop cs idx atlas) = None"
  by (induction cs arbitrary: idx atlas) simp_all

lemma mask_loop_error:
  "snd (mask_loop cs idx atlas) = Some e \<Longrightarrow> \<exists>j < length cs. cs ! j = 0 \<and> length atlas \<le> idx + j \<and> e = IndexError (idx + j)"
proof (induction cs arbitrary: idx atlas)
  case Nil
  then show ?case by simp
next
  case (Cons val rest)
  show ?case
  proof (cases "val = 0 \<and> \<not> idx < length atlas")
    case True
    with Cons.prems have "e = IndexError idx" by simp
    with True show ?thesis by (intro exI[of _ 0]) simp
  next
    case False
    then obtain atlas' where "mask_loop (val # rest) idx atlas = mask_loop rest (Suc idx) atlas'" and "length atlas' = length atlas"
      by (cases "val = 0") auto
    with Cons.prems Cons.IH[of "Suc idx" atlas'] obtain j where "j < length rest" "rest ! j = 0" "length atlas \<le> Suc idx + j" "e = IndexError (Suc idx + j)"
      by auto
    then show ?thesis by (intro exI[of _ "Suc j"]) simp
  qed
qed

lemma fst_get_roi_name: "fst (get_roi_name c a d) = fst (mask_loop c 0 a)"
  by (simp add: get_roi_name_def split: prod.splits option.splits)

lemma masked_eq_map2:
  assumes "length c = length a"
  shows "fst (mask_loop c 0 a) = map (\<lambda>(m, l). if m = 0 then 0 else l) (zip c a)"
  using assms by (intro nth_equalityI) (simp_all add: mask_loop_length mask_loop_nth)

lemma filter_masked:
  "filter (\<lambda>x. x \<noteq> 0) (map (\<lambda>(m, l). if m = (0::real) then (0::int) else l) zs) =
   map snd (filter (\<lambda>(m, l). m \<noteq> 0 \<and> l \<noteq> 0) zs)"
  by (induction zs) auto

lemma filter_masked_surviving:
  assumes "length c = length a"
  shows "filter (\<lambda>x. x \<noteq> 0) (fst (mask_loop c 0 a)) = surviving_ids c a"
  using assms by (simp add: masked_eq_map2 filter_masked surviving_ids_def)

lemma masked_zero:
  assumes "length c = length a" "i < length a" "c ! i = 0 \<or> a ! i = 0"
  shows "0 \<in> set (fst (mask_loop c 0 a))"
proof -
  have "fst (mask_loop c 0 a) ! i = 0"
    using assms by (auto simp: mask_loop_nth)
  moreover have "i < length (fst (mask_loop c 0 a))" using assms by (simp add: mask_loop_length)
  ultimately show ?thesis by (metis nth_mem)
qed

lemma masked_nonneg:
  assumes "\<forall>l \<in> set a. 0 \<le> l"
  shows "\<forall>x \<in> set (fst (mask_loop c 0 a)). 0 \<le> x"
proof
  fix x assume "x \<in> set (fst (mask_loop c 0 a))"
  then obtain i where i: "i < length a" and x: "x = fst (mask_loop c 0 a) ! i"
    by (auto simp: in_set_conv_nth mask_loop_length)
  from i have "a ! i \<in> set a" by simp
  with assms have "0 \<le> a ! i" by blast
  with i x show "0 \<le> x" by (simp add: mask_loop_nth)
qed

lemma set_surviving_ids:
  assumes "length c = length a"
  shows "set (surviving_ids c a) = {a ! i | i. i < length a \<and> c ! i \<noteq> 0 \<and> a ! i \<noteq> 0}"
  using assms by (force simp: surviving_ids_def set_zip)

section \<open>Properties of the lookup loop and of the sorted distinct values\<close>

lemma lookup_loop_Inr:
  "lookup_loop d ids acc = Inr rois \<Longrightarrow> set ids \<subseteq> dom d \<and> rois = acc @ map (\<lambda>i. the (d i)) ids"
proof (induction ids arbitrary: acc)
  case Nil
  then show ?case by simp
next
  case (Cons i ids)
  from Cons.prems obtain name where n: "d i = Some name" and r: "lookup_loop d ids (acc @ [name]) = Inr rois"
    by (auto split: option.splits)
  from Cons.IH[OF r] n show ?case by auto
qed

lemma lookup_loop_Inl:
  "lookup_loop d ids acc = Inl e \<Longrightarrow> \<exists>i \<in> set ids. d i = None \<and> e = KeyError i"
  by (induction ids arbitrary: acc) (auto split: option.splits)

lemma lookup_loop_total:
  "set ids \<subseteq> dom d \<Longrightarrow> lookup_loop d ids acc = Inr (acc @ map (\<lambda>i. the (d i)) ids)"
  by (induction ids arbitrary: acc) (auto split: option.splits)

lemma tl_unique_zero_least:
  assumes "0 \<in> set xs" "\<forall>x \<in> set xs. 0 \<le> x"
  shows "tl (unique xs) = sort (remdups (filter (\<lambda>x. x \<noteq> 0) xs))"
proof -
  have s: "sorted (unique xs)" and d: "distinct (unique xs)" and e: "set (unique xs) = set xs"
    by (simp_all add: unique_def)
  from assms e obtain y ys where u: "unique xs = y # ys" by (cases "unique xs") auto
  with s have le: "\<forall>z \<in> set ys. y \<le> z" by simp
  from u e assms have "y \<le> 0" "0 \<le> y" using le by auto
  then have y: "y = 0" by simp
  with u d have "0 \<notin> set ys" by simp
  then have "filter (\<lambda>x. x \<noteq> 0) ys = ys" by (auto simp: filter_id_conv)
  then have "filter (\<lambda>x. x \<noteq> 0) (unique xs) = ys" using u y by simp
  moreover have "filter (\<lambda>x. x \<noteq> 0) (unique xs) = sort (remdups (filter (\<lambda>x. x \<noteq> 0) xs))"
    by (simp add: unique_def filter_sort remdups_filter)
  ultimately show ?thesis using u by simp
qed

lemma snd_get_roi_name:
  assumes "length c = length a"
  shows "snd (get_roi_name c a d) = lookup_loop d (tl (unique (fst (mask_loop c 0 a)))) []"
proof -
  have "snd (mask_loop c 0 a) = None" using assms by (simp add: mask_loop_no_error)
  then show ?thesis by (cases "mask_loop c 0 a") (simp add: get_roi_name_def)
qed

lemma get_roi_name_zero_least:
  assumes len: "length c = length a"
    and zero: "0 \<in> set (fst (mask_loop c 0 a))"
    and nonneg: "\<forall>x \<in> set (fst (mask_loop c 0 a)). 0 \<le> x"
  shows "snd (get_roi_name c a d) = lookup_loop d (sort (remdups (surviving_ids c a))) []"
  using tl_unique_zero_least[OF zero nonneg] len
  by (simp add: snd_get_roi_name filter_masked_surviving)

text \<open>
  Where the masked labels have \<open>0\<close> as their least value, the slice \<^verbatim>\<open>[1:]\<close> removes
  exactly the background, and \<^verbatim>\<open>get_roi_name\<close> agrees with the specification: a name
  is returned if and only if some vertex inside a cluster carries a nonzero label of that
  name, and a surviving label without a name is reported as a \<^verbatim>\<open>KeyError\<close>.
\<close>

lemma get_roi_name_names_zero_least:
  assumes "length c = length a"
    and "\<exists>i < length a. c ! i = 0 \<or> a ! i = 0"
    and "\<forall>l \<in> set a. 0 \<le> l"
    and "snd (get_roi_name c a d) = Inr roi_list"
  shows "name \<in> set roi_list \<longleftrightarrow>
         (\<exists>i < length a. c ! i \<noteq> 0 \<and> a ! i \<noteq> 0 \<and> d (a ! i) = Some name)"
proof -
  from assms(2) obtain i where "i < length a" "c ! i = 0 \<or> a ! i = 0" by blast
  then have zero: "0 \<in> set (fst (mask_loop c 0 a))"
    using assms(1) by (rule masked_zero[rotated])
  have "lookup_loop d (sort (remdups (surviving_ids c a))) [] = Inr roi_list"
    using get_roi_name_zero_least[OF assms(1) zero masked_nonneg[OF assms(3)]] assms(4) by simp
  from lookup_loop_Inr[OF this]
  have dom: "set (surviving_ids c a) \<subseteq> dom d"
    and rois: "roi_list = map (\<lambda>i. the (d i)) (sort (remdups (surviving_ids c a)))"
    by simp_all
  have "name \<in> set roi_list \<longleftrightarrow> (\<exists>l \<in> set (surviving_ids c a). d l = Some name)"
    using dom by (force simp: rois image_iff)
  also have "\<dots> \<longleftrightarrow> (\<exists>i < length a. c ! i \<noteq> 0 \<and> a ! i \<noteq> 0 \<and> d (a ! i) = Some name)"
    by (auto simp: set_surviving_ids[OF assms(1)])
  finally show ?thesis .
qed

lemma get_roi_name_missing_key_zero_least:
  assumes "length c = length a"
    and "\<exists>i < length a. c ! i = 0 \<or> a ! i = 0"
    and "\<forall>l \<in> set a. 0 \<le> l"
    and "\<not> set (surviving_ids c a) \<subseteq> dom d"
  shows "\<exists>k \<in> set (surviving_ids c a). d k = None \<and> snd (get_roi_name c a d) = Inl (KeyError k)"
proof -
  from assms(2) obtain i where "i < length a" "c ! i = 0 \<or> a ! i = 0" by blast
  then have zero: "0 \<in> set (fst (mask_loop c 0 a))"
    using assms(1) by (rule masked_zero[rotated])
  have eq: "snd (get_roi_name c a d) = lookup_loop d (sort (remdups (surviving_ids c a))) []"
    by (rule get_roi_name_zero_least[OF assms(1) zero masked_nonneg[OF assms(3)]])
  show ?thesis
  proof (cases "snd (get_roi_name c a d)")
    case (Inl e)
    with eq lookup_loop_Inl[of d "sort (remdups (surviving_ids c a))" "[]" e] show ?thesis by auto
  next
    case (Inr rois)
    with eq lookup_loop_Inr[of d "sort (remdups (surviving_ids c a))" "[]" rois] assms(4)
    show ?thesis by auto
  qed
qed

section \<open>Claims about the overlap resolver\<close>

text \<open>
  Claim C1: a region name appears in the list returned by \<^verbatim>\<open>get_roi_name\<close> if and only
  if at some index the cluster value is nonzero and the label is nonzero and present in
  the table.

  The code does not do this when no element of the masked labels is \<open>0\<close>:
  \<^verbatim>\<open>np.unique(atlas_data)[1:]\<close> drops the first of the sorted distinct values, which is
  then the least label id and not the background. With a cluster covering both vertices,
  labels \<open>3\<close> and \<open>5\<close> and both ids in the table, the name of id \<open>3\<close> is missing
  from the result although index \<open>0\<close> has a nonzero cluster value and a nonzero label
  that the table names.
\<close>

theorem get_roi_name_drops_least_id:
  "surviving_ids [1, 1] [3, 5] = [3, 5] \<and>
   [3 \<mapsto> ''Frontal'', 5 \<mapsto> ''Insula''] (3::int) = Some ''Frontal'' \<and>
   snd (get_roi_name [1, 1] [3, 5] [3 \<mapsto> ''Frontal'', 5 \<mapsto> ''Insula'']) = Inr [''Insula'']"
  by (simp add: get_roi_name_def unique_def surviving_ids_def)

text \<open>
  Claim C2: \<^verbatim>\<open>get_roi_name\<close> masks a working copy and leaves the caller's label array
  unchanged.

  The code has no copy: the loop assigns \<^verbatim>\<open>atlas_data[idx] = 0\<close> in the array it was
  given. What holds instead: after the call, the caller's array has its length unchanged,
  holds \<open>0\<close> at every index where the cluster data is \<open>0\<close>, and holds its former
  value at every other index.
\<close>

theorem get_roi_name_masks_in_place:
  "length (fst (get_roi_name cluster_data atlas_data atlas_dict)) = length atlas_data \<and>
   (\<forall>i < length atlas_data.
      fst (get_roi_name cluster_data atlas_data atlas_dict) ! i =
        (if i < length cluster_data \<and> cluster_data ! i = 0 then 0 else atlas_data ! i))"
  by (simp add: fst_get_roi_name mask_loop_length mask_loop_nth)

theorem get_roi_name_masks_in_place_witness:
  "(1::nat) < length [5, 7, 9 :: int] \<and>
   fst (get_roi_name [1, 0, 1] [5, 7, 9] [5 \<mapsto> ''A'', 9 \<mapsto> ''B'']) ! 1 = 0"
  using get_roi_name_masks_in_place [of "[1, 0, 1]" "[5, 7, 9]" "[5 \<mapsto> ''A'', 9 \<mapsto> ''B'']"]
  by simp

text \<open>
  The claim as stated fails: the label \<open>7\<close> at the index outside the cluster is
  overwritten in the caller's array.
\<close>

theorem get_roi_name_mutates_argument:
  "fst (get_roi_name [1, 0, 1] [5, 7, 9] [5 \<mapsto> ''A'', 9 \<mapsto> ''B'']) \<noteq> [5, 7, 9]"
  by (simp add: get_roi_name_def)

text \<open>
  Claim C4: the returned list has no duplicate names and lists the names of the distinct
  surviving label ids in ascending order of id; it is a function of the inputs.

  The code removes duplicate ids, not duplicate names, so a table that gives one name to
  two ids yields that name twice. What holds: when the cluster data and the labels have
  the same length, no label id is negative, some element is outside the clusters or is
  background (so that \<open>0\<close> is the least of the masked labels) and the call returns a
  list, that list consists of the table's names of the distinct surviving ids in
  ascending order of id, and it has no duplicate names if the table gives distinct
  surviving ids distinct names. The result is the value of a function of the three
  inputs, so equal inputs give equal results.
\<close>

theorem get_roi_name_ascending:
  assumes "length cluster_data = length atlas_data"
    and "\<exists>i < length atlas_data. cluster_data ! i = 0 \<or> atlas_data ! i = 0"
    and "\<forall>l \<in> set atlas_data. 0 \<le> l"
    and "snd (get_roi_name cluster_data atlas_data atlas_dict) = Inr roi_list"
  shows "map Some roi_list = map atlas_dict (sort (remdups (surviving_ids cluster_data atlas_data))) \<and>
         (inj_on atlas_dict (set (surviving_ids cluster_data atlas_data)) \<longrightarrow> distinct roi_list)"
proof -
  let ?ids = "sort (remdups (surviving_ids cluster_data atlas_data))"
  from assms(2) obtain i where "i < length atlas_data" "cluster_data ! i = 0 \<or> atlas_data ! i = 0"
    by blast
  then have zero: "0 \<in> set (fst (mask_loop cluster_data 0 atlas_data))"
    using assms(1) by (rule masked_zero[rotated])
  have "lookup_loop atlas_dict ?ids [] = Inr roi_list"
    using get_roi_name_zero_least[OF assms(1) zero masked_nonneg[OF assms(3)]] assms(4) by simp
  from lookup_loop_Inr[OF this]
  have dom: "set ?ids \<subseteq> dom atlas_dict" and rois: "roi_list = map (\<lambda>i. the (atlas_dict i)) ?ids"
    by simp_all
  have names: "map Some roi_list = map atlas_dict ?ids"
    using dom by (auto simp: rois)
  have "distinct roi_list" if inj: "inj_on atlas_dict (set (surviving_ids cluster_data atlas_data))"
  proof -
    have "distinct (map atlas_dict ?ids)"
      using inj by (simp add: distinct_map)
    with names have "distinct (map Some roi_list)" by simp
    then show ?thesis by (simp add: distinct_map)
  qed
  with names show ?thesis by blast
qed

theorem get_roi_name_ascending_witness:
  "length [0, 1, 1, 1 :: real] = length [3, 9, 2, 5 :: int] \<and>
   (\<exists>i < length [3, 9, 2, 5 :: int]. [0, 1, 1, 1 :: real] ! i = 0 \<or> [3, 9, 2, 5 :: int] ! i = 0) \<and>
   snd (get_roi_name [0, 1, 1, 1] [3, 9, 2, 5] [5 \<mapsto> ''A'', 2 \<mapsto> ''B'', 9 \<mapsto> ''C'']) = Inr [''B'', ''A'', ''C''] \<and>
   inj_on [5 \<mapsto> ''A'', 2 \<mapsto> ''B'', 9 \<mapsto> ''C''] (set (surviving_ids [0, 1, 1, 1] [3, 9, 2, 5])) \<and>
   map Some [''B'', ''A'', ''C''] =
     map [5 \<mapsto> ''A'', 2 \<mapsto> ''B'', 9 \<mapsto> ''C''] (sort (remdups (surviving_ids [0, 1, 1, 1] [3, 9, 2, 5]))) \<and>
   distinct [''B'', ''A'', ''C'']"
proof -
  have len: "length [0, 1, 1, 1 :: real] = length [3, 9, 2, 5 :: int]" by simp
  have zero: "\<exists>i < length [3, 9, 2, 5 :: int]. [0, 1, 1, 1 :: real] ! i = 0 \<or> [3, 9, 2, 5 :: int] ! i = 0"
    by (intro exI[of _ 0]) simp
  have nonneg: "\<forall>l \<in> set [3, 9, 2, 5 :: int]. 0 \<le> l" by simp
  have ret: "snd (get_roi_name [0, 1, 1, 1] [3, 9, 2, 5] [5 \<mapsto> ''A'', 2 \<mapsto> ''B'', 9 \<mapsto> ''C'']) = Inr [''B'', ''A'', ''C'']"
    by (simp add: get_roi_name_def unique_def)
  have inj: "inj_on [5 \<mapsto> ''A'', 2 \<mapsto> ''B'', 9 \<mapsto> (''C''::string)] (set (surviving_ids [0, 1, 1, 1] [3, 9, 2, 5]))"
    by (simp add: surviving_ids_def)
  from get_roi_name_ascending [OF len zero nonneg ret] len zero ret inj
  show ?thesis by blast
qed

text \<open>
  The claim as stated fails on a table that names the ids \<open>1\<close> and \<open>2\<close> alike.
\<close>

theorem get_roi_name_duplicate_names:
  "snd (get_roi_name [0, 1, 1] [3, 1, 2] [1 \<mapsto> ''A'', 2 \<mapsto> ''A'']) = Inr [''A'', ''A''] \<and>
   \<not> distinct [''A'', ''A'']"
  by (simp add: get_roi_name_def unique_def)

text \<open>
  Claim C5: when a distinct surviving label id has no entry in the table,
  \<^verbatim>\<open>get_roi_name\<close> fails with an error instead of returning a list.

  The lookup \<^verbatim>\<open>atlas_dict[i]\<close> does raise \<^verbatim>\<open>KeyError\<close> for a missing id, but the
  slice \<^verbatim>\<open>[1:]\<close> has removed the least value before the lookup. When no element of the
  masked labels is \<open>0\<close> that value is a surviving id: here id \<open>3\<close> survives and has
  no entry, and the call returns a list without a name for it.
\<close>

theorem get_roi_name_skips_missing_least_id:
  "surviving_ids [1, 1] [3, 5] = [3, 5] \<and>
   [5 \<mapsto> ''Insula''] (3::int) = None \<and>
   snd (get_roi_name [1, 1] [3, 5] [5 \<mapsto> ''Insula'']) = Inr [''Insula'']"
  by (simp add: get_roi_name_def unique_def surviving_ids_def)

section \<open>Properties of the orchestrator\<close>

text \<open>
  When both hemispheres are resolved without an exception, the list that
  \<^verbatim>\<open>proc_stat_cluster\<close> builds is the left result, then the right result, then the
  contents of \<^verbatim>\<open>tmp_list\<close> at the last \<^verbatim>\<open>extend\<close>: the volumetric result where
  \<^verbatim>\<open>load_vol_data\<close> ran, and otherwise what the loop left in the variable, the right
  result.
\<close>

lemma hemi_loop_two:
  assumes "proc_hemi w d a s1 = Inr l" "proc_hemi w d a s2 = Inr r"
  shows "hemi_loop w d a [s1, s2] ([], []) = Inr (l @ r, r)"
  using assms by simp

lemma proc_stat_cluster_rois_eq:
  assumes "proc_hemi w (find_clusters cii_file left_surf right_surf thresh distance) cii_atlas ''CORTEX_LEFT'' = Inr left_rois"
    and "proc_hemi w (find_clusters cii_file left_surf right_surf thresh distance) cii_atlas ''CORTEX_RIGHT'' = Inr right_rois"
  shows "proc_stat_cluster_rois w cii_file cii_atlas left_surf right_surf thresh distance vol_atlas_num nii_atlas atlas_info =
           Inr (left_rois @ right_rois @
                (if lower (platform_system w) \<noteq> ''windows''
                 then load_vol_data w cii_file thresh distance vol_atlas_num nii_atlas atlas_info
                 else right_rois))"
  unfolding proc_stat_cluster_rois_def Let_def hemi_loop_two[OF assms]
  by simp

lemma proc_stat_cluster_rois_concat:
  assumes "lower (platform_system w) \<noteq> ''windows''"
    and "proc_hemi w (find_clusters cii_file left_surf right_surf thresh distance) cii_atlas ''CORTEX_LEFT'' = Inr left_rois"
    and "proc_hemi w (find_clusters cii_file left_surf right_surf thresh distance) cii_atlas ''CORTEX_RIGHT'' = Inr right_rois"
    and "load_vol_data w cii_file thresh distance vol_atlas_num nii_atlas atlas_info = vol_rois"
  shows "proc_stat_cluster_rois w cii_file cii_atlas left_surf right_surf thresh distance vol_atlas_num nii_atlas atlas_info =
           Inr (left_rois @ right_rois @ vol_rois) \<and>
         (left_rois @ right_rois @ vol_rois \<noteq> [] \<longrightarrow>
            proc_stat_cluster w cii_file cii_atlas out_file left_surf right_surf thresh distance vol_atlas_num nii_atlas atlas_info fs =
              Inr (write_spread w cii_file out_file (left_rois @ right_rois @ vol_rois) fs))"
proof -
  have rois: "proc_stat_cluster_rois w cii_file cii_atlas left_surf right_surf thresh distance vol_atlas_num nii_atlas atlas_info =
           Inr (left_rois @ right_rois @ vol_rois)"
    using proc_stat_cluster_rois_eq[OF assms(2) assms(3)] assms(1) assms(4) by simp
  then show ?thesis
    by (simp add: proc_stat_cluster_def)
qed

lemma proc_stat_cluster_rois_windows:
  assumes "lower (platform_system w) = ''windows''"
    and "proc_hemi w (find_clusters cii_file left_surf right_surf thresh distance) cii_atlas ''CORTEX_LEFT'' = Inr left_rois"
    and "proc_hemi w (find_clusters cii_file left_surf right_surf thresh distance) cii_atlas ''CORTEX_RIGHT'' = Inr right_rois"
  shows "proc_stat_cluster_rois w cii_file cii_atlas left_surf right_surf thresh distance vol_atlas_num nii_atlas atlas_info =
           Inr (left_rois @ right_rois @ right_rois)"
  using proc_stat_cluster_rois_eq[OF assms(2) assms(3)] assms(1) by simp

text \<open>Both hemispheres of the concrete environment, whatever the file names.\<close>

lemma proc_hemi_posix_left:
  "proc_hemi posix_world f a ''CORTEX_LEFT'' = Inr [''Frontal'']"
  by (simp add: proc_hemi_def load_hemi_labels_def load_hemi_data_def posix_world_def get_roi_name_def unique_def)

lemma proc_hemi_posix_right:
  "proc_hemi posix_world f a ''CORTEX_RIGHT'' = Inr [''Temporal'', ''Insula'']"
  by (simp add: proc_hemi_def load_hemi_labels_def load_hemi_data_def posix_world_def get_roi_name_def unique_def)

lemma proc_hemi_windows_left:
  "proc_hemi windows_world f a ''CORTEX_LEFT'' = Inr [''Frontal'']"
  by (simp add: proc_hemi_def load_hemi_labels_def load_hemi_data_def windows_world_def
      posix_world_def get_roi_name_def unique_def)

lemma proc_hemi_windows_right:
  "proc_hemi windows_world f a ''CORTEX_RIGHT'' = Inr [''Temporal'', ''Insula'']"
  by (simp add: proc_hemi_def load_hemi_labels_def load_hemi_data_def windows_world_def
      posix_world_def get_roi_name_def unique_def)

lemma lower_windows: "lower (platform_system windows_world) = ''windows''"
  by (simp add: windows_world_def lower_def)

lemma proc_hemi_quiet:
  "proc_hemi quiet_world f a wb_struct = Inr []"
  by (simp add: proc_hemi_def load_hemi_labels_def load_hemi_data_def quiet_world_def
      posix_world_def get_roi_name_def unique_def)

section \<open>Properties of the path functions\<close>

text \<open>
  \<^verbatim>\<open>splitext\<close> cuts its argument in two. So a file name whose extension is one of
  \<^verbatim>\<open>.csv\<close>, \<^verbatim>\<open>.tsv\<close>, \<^verbatim>\<open>.txt\<close> gets the extension \<^verbatim>\<open>.csv\<close>, and a file name
  in which none of the three occurs is left as it is.
\<close>

lemma skip_dots_append:
  "skip_dots p i d = (stem, ext) \<Longrightarrow> p = stem @ ext"
proof (induction p i d rule: skip_dots.induct)
  case (1 p filenameIndex dotIndex)
  show ?case
  proof (cases "filenameIndex < dotIndex")
    case True
    show ?thesis
    proof (cases "p ! filenameIndex \<noteq> CHR ''.''")
      case True
      with \<open>filenameIndex < dotIndex\<close> "1.prems" show ?thesis
        by (auto simp: skip_dots.simps[of p filenameIndex dotIndex])
    next
      case False
      with \<open>filenameIndex < dotIndex\<close> "1.prems" "1.IH" show ?thesis
        by (simp add: skip_dots.simps[of p filenameIndex dotIndex])
    qed
  next
    case False
    with "1.prems" show ?thesis by (simp add: skip_dots.simps[of p filenameIndex dotIndex])
  qed
qed

lemma splitext_append: "splitext w p = (stem, ext) \<Longrightarrow> p = stem @ ext"
  by (auto simp: splitext_def Let_def split: if_splits dest: skip_dots_append)

lemma write_spread_out_file_recognized:
  assumes "snd (splitext w out_file) \<in> {''.csv'', ''.tsv'', ''.txt''}"
  shows "write_spread_out_file w out_file = fst (splitext w out_file) @ ''.csv''"
proof -
  obtain stem ext where s: "splitext w out_file = (stem, ext)" by (cases "splitext w out_file")
  then have "out_file = stem @ ext @ []" by (simp add: splitext_append)
  then have "sublist ext out_file" by (metis sublist_appendI)
  with assms s show ?thesis by (auto simp: write_spread_out_file_def)
qed

lemma write_spread_out_file_unchanged:
  assumes "\<not> sublist ''.csv'' out_file" "\<not> sublist ''.tsv'' out_file" "\<not> sublist ''.txt'' out_file"
  shows "write_spread_out_file w out_file = out_file"
  using assms by (simp add: write_spread_out_file_def)

lemma out_file_rois_csv: "write_spread_out_file posix_world ''rois.csv'' = ''rois.csv''"
  by (simp add: write_spread_out_file_def splitext_def rfind_def posix_world_def
      sublist_code(3) skip_dots.simps)

section \<open>Claims about the orchestrator\<close>

text \<open>
  Claim C3: on a platform where the volumetric lookup is unavailable (Windows) the
  subcortical step is skipped and contributes nothing: the list built is the left-cortex
  result followed by the right-cortex result.

  The code skips the call of \<^verbatim>\<open>load_vol_data\<close> but not the \<^verbatim>\<open>extend\<close> after it, and
  \<^verbatim>\<open>tmp_list\<close> still holds the right-cortex result of the last loop iteration. On the
  Windows environment the right-cortex names are appended a second time.
\<close>

theorem proc_stat_cluster_windows_repeats_right:
  "lower (platform_system windows_world) = ''windows'' \<and>
   proc_hemi windows_world ''clusters.dscalar.nii'' ''atlas.dlabel.nii'' ''CORTEX_LEFT'' = Inr [''Frontal''] \<and>
   proc_hemi windows_world ''clusters.dscalar.nii'' ''atlas.dlabel.nii'' ''CORTEX_RIGHT'' = Inr [''Temporal'', ''Insula''] \<and>
   proc_stat_cluster_rois windows_world ''stats.dscalar.nii'' ''atlas.dlabel.nii'' ''L.surf.gii'' ''R.surf.gii'' (177 / 100) 20 4 [] [] =
     Inr [''Frontal'', ''Temporal'', ''Insula'', ''Temporal'', ''Insula'']"
  by (simp add: proc_stat_cluster_rois_def find_clusters_def proc_hemi_def load_hemi_labels_def
      load_hemi_data_def windows_world_def posix_world_def lower_def get_roi_name_def unique_def)

text \<open>
  Claim C6: when the combined list of all modalities is empty, \<^verbatim>\<open>write_spread\<close> is
  not called: the output table is neither created nor modified.

  If both hemispheres resolve to the empty list and the volumetric lookup, where it
  runs, finds nothing, then the list built is empty, the tables on disk are the ones
  before the call, and the output file name is returned as given.
\<close>

theorem proc_stat_cluster_empty_no_write:
  assumes "proc_hemi w (find_clusters cii_file left_surf right_surf thresh distance) cii_atlas ''CORTEX_LEFT'' = Inr []"
    and "proc_hemi w (find_clusters cii_file left_surf right_surf thresh distance) cii_atlas ''CORTEX_RIGHT'' = Inr []"
    and "lower (platform_system w) \<noteq> ''windows'' \<longrightarrow>
           load_vol_data w cii_file thresh distance vol_atlas_num nii_atlas atlas_info = []"
  shows "proc_stat_cluster_rois w cii_file cii_atlas left_surf right_surf thresh distance vol_atlas_num nii_atlas atlas_info = Inr [] \<and>
         proc_stat_cluster w cii_file cii_atlas out_file left_surf right_surf thresh distance vol_atlas_num nii_atlas atlas_info fs =
           Inr (out_file, fs)"
proof -
  have "proc_stat_cluster_rois w cii_file cii_atlas left_surf right_surf thresh distance vol_atlas_num nii_atlas atlas_info = Inr []"
    using proc_stat_cluster_rois_eq[OF assms(1) assms(2)] assms(3) by simp
  then show ?thesis by (simp add: proc_stat_cluster_def)
qed

theorem proc_stat_cluster_empty_no_write_witness:
  "load_vol_data quiet_world ''stats.dscalar.nii'' (177 / 100) 20 4 [] [] = [] \<and>
   proc_stat_cluster_rois quiet_world ''stats.dscalar.nii'' ''atlas.dlabel.nii'' ''L.surf.gii'' ''R.surf.gii'' (177 / 100) 20 4 [] [] = Inr [] \<and>
   proc_stat_cluster quiet_world ''stats.dscalar.nii'' ''atlas.dlabel.nii'' ''rois.csv'' ''L.surf.gii'' ''R.surf.gii'' (177 / 100) 20 4 [] []
       [''rois.csv'' \<mapsto> [header_row]] =
     Inr (''rois.csv'', [''rois.csv'' \<mapsto> [header_row]])"
proof -
  have vol: "load_vol_data quiet_world ''stats.dscalar.nii'' (177 / 100) 20 4 [] [] = []"
    by (simp add: load_vol_data_def quiet_world_def)
  from proc_stat_cluster_empty_no_write
         [where w = quiet_world and cii_file = "''stats.dscalar.nii''" and left_surf = "''L.surf.gii''"
            and right_surf = "''R.surf.gii''" and thresh = "177 / 100" and distance = 20
            and vol_atlas_num = 4 and nii_atlas = "[]" and atlas_info = "[]"
            and cii_atlas = "''atlas.dlabel.nii''" and out_file = "''rois.csv''"
            and fs = "[''rois.csv'' \<mapsto> [header_row]]",
          OF proc_hemi_quiet proc_hemi_quiet] vol
  show ?thesis by simp
qed

text \<open>
  Claim C8: the list built is the left-cortex result, then the right-cortex result, then
  the volumetric result, each appended by extension and without removing names that
  occur in more than one of them: a name appears once for each modality that produced it.

  Where the volumetric lookup runs, this is what the code does
  (\<open>proc_stat_cluster_rois_concat\<close>). On Windows it does not run, and the row written
  holds the right-cortex names twice, though only one modality produced them.
\<close>

theorem proc_stat_cluster_windows_row:
  "proc_stat_cluster windows_world ''stats.dscalar.nii'' ''atlas.dlabel.nii'' ''rois.dat'' ''L.surf.gii'' ''R.surf.gii'' (177 / 100) 20 4 [] [] Map.empty =
     Inr (''rois.dat'',
          [''rois.dat'' \<mapsto>
             [[Text ''File'', Text ''ROIs''],
              [Text ''/data/stats.dscalar.nii'',
               Names [''Frontal'', ''Temporal'', ''Insula'', ''Temporal'', ''Insula'']]]])"
proof -
  have "proc_stat_cluster_rois windows_world ''stats.dscalar.nii'' ''atlas.dlabel.nii'' ''L.surf.gii'' ''R.surf.gii'' (177 / 100) 20 4 [] [] =
          Inr ([''Frontal''] @ [''Temporal'', ''Insula''] @ [''Temporal'', ''Insula''])"
    by (rule proc_stat_cluster_rois_windows [OF lower_windows proc_hemi_windows_left proc_hemi_windows_right])
  moreover have "write_spread_out_file windows_world ''rois.dat'' = ''rois.dat''"
    by (simp add: write_spread_out_file_def sublist_code(3))
  moreover have "os_path_abspath windows_world ''stats.dscalar.nii'' = ''/data/stats.dscalar.nii''"
    by (simp add: windows_world_def posix_world_def)
  ultimately show ?thesis
    by (simp add: proc_stat_cluster_def write_spread_def Let_def header_row_def)
qed

section \<open>Claims about the record writer\<close>

text \<open>
  Claim C7: an output path whose extension is \<^verbatim>\<open>.csv\<close>, \<^verbatim>\<open>.tsv\<close> or \<^verbatim>\<open>.txt\<close> is
  given the extension \<^verbatim>\<open>.csv\<close>, and a path with any other extension is left
  unchanged.

  The first half holds (\<open>write_spread_out_file_recognized\<close>). The second does not: the
  code asks whether \<^verbatim>\<open>.csv\<close> occurs anywhere in the path, not whether it is the
  extension, and then replaces whatever the extension is. The path
  \<^verbatim>\<open>results.csv.bak\<close> has the extension \<^verbatim>\<open>.bak\<close> and is changed to
  \<^verbatim>\<open>results.csv.csv\<close>.
\<close>

theorem write_spread_out_file_substring:
  "splitext posix_world ''results.csv.bak'' = (''results.csv'', ''.bak'') \<and>
   write_spread_out_file posix_world ''results.csv.bak'' = ''results.csv.csv'' \<and>
   fst (write_spread posix_world ''stats.dscalar.nii'' ''results.csv.bak'' [''Frontal''] Map.empty) = ''results.csv.csv''"
  by (simp add: write_spread_def Let_def write_spread_out_file_def splitext_def rfind_def posix_world_def
      sublist_code(3) skip_dots.simps)

text \<open>
  Claim C9: if the output table does not exist, \<^verbatim>\<open>write_spread\<close> creates it with the
  header row \<^verbatim>\<open>File,ROIs\<close> followed by exactly one data row; if it exists, exactly one
  data row is appended and no header is written again.

  The table is the file at the rewritten output path, which is also the path returned.
  The data row holds the absolute path of the input file and the list of names.
\<close>

theorem write_spread_rows:
  "fst (write_spread w file out_file roi_list fs) = write_spread_out_file w out_file \<and>
   (fs (write_spread_out_file w out_file) = None \<longrightarrow>
      snd (write_spread w file out_file roi_list fs) =
        fs(write_spread_out_file w out_file \<mapsto>
             [[Text ''File'', Text ''ROIs''], [Text (os_path_abspath w file), Names roi_list]])) \<and>
   (\<forall>rows. fs (write_spread_out_file w out_file) = Some rows \<longrightarrow>
      snd (write_spread w file out_file roi_list fs) =
        fs(write_spread_out_file w out_file \<mapsto>
             rows @ [[Text (os_path_abspath w file), Names roi_list]]))"
  by (cases "fs (write_spread_out_file w out_file)") (simp_all add: write_spread_def Let_def header_row_def)

theorem write_spread_rows_witness:
  "snd (write_spread posix_world ''a.dscalar.nii'' ''rois.csv'' [''Frontal''] Map.empty) =
     [''rois.csv'' \<mapsto> [[Text ''File'', Text ''ROIs''], [Text ''/data/a.dscalar.nii'', Names [''Frontal'']]]] \<and>
   snd (write_spread posix_world ''b.dscalar.nii'' ''rois.csv'' [''Insula'', ''Frontal'']
          [''rois.csv'' \<mapsto> [[Text ''File'', Text ''ROIs''], [Text ''/data/a.dscalar.nii'', Names [''Frontal'']]]]) =
     [''rois.csv'' \<mapsto> [[Text ''File'', Text ''ROIs''], [Text ''/data/a.dscalar.nii'', Names [''Frontal'']],
                        [Text ''/data/b.dscalar.nii'', Names [''Insula'', ''Frontal'']]]]"
proof -
  have abs: "os_path_abspath posix_world ''a.dscalar.nii'' = ''/data/a.dscalar.nii''"
    "os_path_abspath posix_world ''b.dscalar.nii'' = ''/data/b.dscalar.nii''"
    by (simp_all add: posix_world_def)
  from write_spread_rows [of posix_world "''a.dscalar.nii''" "''rois.csv''" "[''Frontal'']" Map.empty]
  have first: "snd (write_spread posix_world ''a.dscalar.nii'' ''rois.csv'' [''Frontal''] Map.empty) =
     [''rois.csv'' \<mapsto> [[Text ''File'', Text ''ROIs''], [Text ''/data/a.dscalar.nii'', Names [''Frontal'']]]]"
    by (simp add: out_file_rois_csv abs)
  from write_spread_rows [of posix_world "''b.dscalar.nii''" "''rois.csv''" "[''Insula'', ''Frontal'']"
      "[''rois.csv'' \<mapsto> [[Text ''File'', Text ''ROIs''], [Text ''/data/a.dscalar.nii'', Names [''Frontal'']]]]"]
  have second: "snd (write_spread posix_world ''b.dscalar.nii'' ''rois.csv'' [''Insula'', ''Frontal'']
          [''rois.csv'' \<mapsto> [[Text ''File'', Text ''ROIs''], [Text ''/data/a.dscalar.nii'', Names [''Frontal'']]]]) =
     [''rois.csv'' \<mapsto> [[Text ''File'', Text ''ROIs''], [Text ''/data/a.dscalar.nii'', Names [''Frontal'']],
                        [Text ''/data/b.dscalar.nii'', Names [''Insula'', ''Frontal'']]]]"
    by (simp add: out_file_rois_csv abs)
  from first second show ?thesis by blast
qed

section \<open>Claims about the command line\<close>

text \<open>
  Claim C10: when the five required arguments are given but neither
  \<^verbatim>\<open>--vol-atlas-num\<close> nor the pair \<^verbatim>\<open>--vol-atlas\<close>, \<^verbatim>\<open>--atlas-info\<close>, the program
  does no processing, prints no error and ends with exit status \<open>0\<close>; the output table
  is neither created nor modified.

  The code tests the truth value of each argument, so a required argument counts as given
  when it is a non-empty string, and an option that is absent is false. The result does
  not depend on the environment's data, since no function that reads it is called; the
  only lines printed are the atlas listing when \<^verbatim>\<open>--dump-vol-atlases\<close> was given.
\<close>

theorem main_no_volumetric_option:
  assumes "truthy_str (args_cii_file a)" "truthy_str (args_out_file a)" "truthy_str (args_left_gii a)"
    "truthy_str (args_right_gii a)" "truthy_str (args_cii_atlas a)"
    and "\<not> truthy_int (args_vol_atlas_num a)"
    and "\<not> (truthy_str (args_vol_atlas a) \<and> truthy_str (args_vol_info a))"
  shows "main w a fs =
           \<lparr>exit_status = 0,
            printed = (if args_dump_vol_atlases a then nro_print_atlases w else []),
            raised = None,
            tables = fs\<rparr>"
  using assms by (auto simp: main_def)

theorem main_no_volumetric_option_witness:
  "truthy_str (args_cii_file cortical_only_args) \<and> truthy_str (args_out_file cortical_only_args) \<and>
   truthy_str (args_left_gii cortical_only_args) \<and> truthy_str (args_right_gii cortical_only_args) \<and>
   truthy_str (args_cii_atlas cortical_only_args) \<and>
   args_vol_atlas_num cortical_only_args = None \<and> args_vol_atlas cortical_only_args = None \<and>
   args_vol_info cortical_only_args = None \<and>
   main posix_world cortical_only_args [''rois.csv'' \<mapsto> [header_row]] =
     \<lparr>exit_status = 0, printed = [], raised = None, tables = [''rois.csv'' \<mapsto> [header_row]]\<rparr>"
proof -
  have req: "truthy_str (args_cii_file cortical_only_args)" "truthy_str (args_out_file cortical_only_args)"
    "truthy_str (args_left_gii cortical_only_args)" "truthy_str (args_right_gii cortical_only_args)"
    "truthy_str (args_cii_atlas cortical_only_args)"
    by (simp_all add: cortical_only_args_def truthy_str_def)
  have num: "\<not> truthy_int (args_vol_atlas_num cortical_only_args)"
    by (simp add: cortical_only_args_def truthy_int_def)
  have atlas: "\<not> (truthy_str (args_vol_atlas cortical_only_args) \<and> truthy_str (args_vol_info cortical_only_args))"
    by (simp add: cortical_only_args_def truthy_str_def)
  from main_no_volumetric_option [OF req num atlas, of posix_world "[''rois.csv'' \<mapsto> [header_row]]"] req
  show ?thesis by (simp add: cortical_only_args_def)
qed

end
